theory Spec2Isabelle
  imports Main
begin

section \<open>Errors\<close>

text \<open>
  The error classes of \<^verbatim>\<open>framework/errors.ts\<close> and the subclasses the concepts
  declare. A thrown error is a value; \<^verbatim>\<open>e instanceof C\<close> is a predicate that
  follows the \<^verbatim>\<open>extends\<close> clauses. The four friending errors keep the two
  user ids they are constructed with; message templates and the filters that
  the other errors carry for formatting are left out.
\<close>

type_synonym ObjectId = nat

datatype error =
    BadValuesError
  | UnauthenticatedError
  | NotAllowedError
  | NotFoundError
  | NotImplementedError
  | UserNotFoundError
  | UserNotAllowedError
  | FriendRequestNotFoundError ObjectId ObjectId
  | FriendRequestAlreadyExistsError ObjectId ObjectId
  | FriendNotFoundError ObjectId ObjectId
  | AlreadyFriendsError ObjectId ObjectId
  | LabelNotFoundError
  | LabelNotAllowedError
  | ResourceNotAllowedError
  | ResourceNotFoundError
  | SortNotFoundError
  | SourceNotFoundError
  | SourceNotAllowedError
  | TemplateNotFoundError

fun instanceof_NotFoundError :: "error \<Rightarrow> bool" where
  "instanceof_NotFoundError NotFoundError = True"
| "instanceof_NotFoundError UserNotFoundError = True"
| "instanceof_NotFoundError (FriendRequestNotFoundError a b) = True"
| "instanceof_NotFoundError (FriendNotFoundError a b) = True"
| "instanceof_NotFoundError LabelNotFoundError = True"
| "instanceof_NotFoundError ResourceNotFoundError = True"
| "instanceof_NotFoundError SortNotFoundError = True"
| "instanceof_NotFoundError SourceNotFoundError = True"
| "instanceof_NotFoundError TemplateNotFoundError = True"
| "instanceof_NotFoundError e = False"

fun instanceof_NotAllowedError :: "error \<Rightarrow> bool" where
  "instanceof_NotAllowedError NotAllowedError = True"
| "instanceof_NotAllowedError UserNotAllowedError = True"
| "instanceof_NotAllowedError (FriendRequestAlreadyExistsError a b) = True"
| "instanceof_NotAllowedError (AlreadyFriendsError a b) = True"
| "instanceof_NotAllowedError LabelNotAllowedError = True"
| "instanceof_NotAllowedError ResourceNotAllowedError = True"
| "instanceof_NotAllowedError SourceNotAllowedError = True"
| "instanceof_NotAllowedError e = False"

section \<open>The generic store\<close>

text \<open>
  Every document extends \<^verbatim>\<open>BaseDoc\<close>. The field \<^verbatim>\<open>_id\<close> is called
  \<open>doc_id\<close> here; the two timestamps are wall-clock values that no concept
  reads, and they are not modelled.
\<close>

record BaseDoc =
  doc_id :: ObjectId

text \<open>
  Modelled from the spec: the class \<^verbatim>\<open>DocCollection\<close> of
  \<^verbatim>\<open>framework/doc.ts\<close>, with the filters of the database driver it passes
  on, is not among the sources. Section 4.1 of the specification gives its
  contract: a filter is a conjunction of exact-match and containment
  predicates over fields, or a lookup by id; \<^verbatim>\<open>createOne\<close> inserts a
  document under a fresh identifier and returns the identifier;
  \<^verbatim>\<open>readOne\<close> returns the first match or null and never throws;
  \<^verbatim>\<open>readMany\<close> returns all matches; \<^verbatim>\<open>partialUpdateOne\<close> merges a patch
  into the first match and is silent when nothing matches; \<^verbatim>\<open>deleteOne\<close>
  and \<^verbatim>\<open>popOne\<close> remove the first match, and \<^verbatim>\<open>popOne\<close> fails with
  NotFound when there is none; the two assertions turn the result of a read
  into NotFound or NotAllowed.

  A filter is what the concepts hand to the store: an id
  (\<^verbatim>\<open>readOne(sortId)\<close>), an object of field conditions
  (\<^verbatim>\<open>{ from, to, status: "pending" }\<close>), or an \<^verbatim>\<open>$or\<close> of such objects.
  A condition is an exact value or \<^verbatim>\<open>{ $in: [...] }\<close>. A document is seen
  by a filter through its named fields; a field the document does not have
  gives \<open>None\<close>, and no condition holds of it.
\<close>

datatype val = VId ObjectId | VStr string

datatype cond = Eq val | In "val list"

datatype filter =
    ById ObjectId
  | Fields "(string \<times> cond) list"
  | Or "(string \<times> cond) list list"

fun holds :: "cond \<Rightarrow> val option \<Rightarrow> bool" where
  "holds (Eq v) x = (x = Some v)"
| "holds (In vs) x = (case x of None \<Rightarrow> False | Some v \<Rightarrow> v \<in> set vs)"

definition all_hold :: "('d \<Rightarrow> string \<Rightarrow> val option) \<Rightarrow> (string \<times> cond) list \<Rightarrow> 'd \<Rightarrow> bool" where
  "all_hold fld cs d = list_all (\<lambda>(f, c). holds c (fld d f)) cs"

fun matches :: "('d \<Rightarrow> string \<Rightarrow> val option) \<Rightarrow> filter \<Rightarrow> 'd \<Rightarrow> bool" where
  "matches fld (ById i) d = (fld d ''_id'' = Some (VId i))"
| "matches fld (Fields cs) d = all_hold fld cs d"
| "matches fld (Or css) d = list_ex (\<lambda>cs. all_hold fld cs d) css"

text \<open>
  A collection is the list of its documents in insertion order together with
  the next unused identifier. The store is a persistence boundary: a read
  returns the stored value, and only \<open>createOne\<close>, \<open>partialUpdateOne\<close>,
  \<open>deleteOne\<close> and \<open>popOne\<close> change what is stored.
\<close>

record 'd DocCollection =
  docs :: "'d list"
  next_id :: ObjectId

definition empty_collection :: "ObjectId \<Rightarrow> 'd DocCollection" where
  "empty_collection n = \<lparr>docs = [], next_id = n\<rparr>"

fun update_first :: "('d \<Rightarrow> bool) \<Rightarrow> ('d \<Rightarrow> 'd) \<Rightarrow> 'd list \<Rightarrow> 'd list" where
  "update_first P g [] = []"
| "update_first P g (d # ds) = (if P d then g d # ds else d # update_first P g ds)"

fun remove_first :: "('d \<Rightarrow> bool) \<Rightarrow> 'd list \<Rightarrow> 'd list" where
  "remove_first P [] = []"
| "remove_first P (d # ds) = (if P d then ds else d # remove_first P ds)"

definition createOne :: "'d DocCollection \<Rightarrow> (ObjectId \<Rightarrow> 'd) \<Rightarrow> ObjectId \<times> 'd DocCollection" where
  "createOne c item =
     (next_id c, c\<lparr>docs := docs c @ [item (next_id c)], next_id := Suc (next_id c)\<rparr>)"

definition readOne :: "('d \<Rightarrow> string \<Rightarrow> val option) \<Rightarrow> 'd DocCollection \<Rightarrow> filter \<Rightarrow> 'd option" where
  "readOne fld c f = find (matches fld f) (docs c)"

definition readMany :: "('d \<Rightarrow> string \<Rightarrow> val option) \<Rightarrow> 'd DocCollection \<Rightarrow> filter \<Rightarrow> 'd list" where
  "readMany fld c f = filter (matches fld f) (docs c)"

definition partialUpdateOne ::
  "('d \<Rightarrow> string \<Rightarrow> val option) \<Rightarrow> 'd DocCollection \<Rightarrow> filter \<Rightarrow> ('d \<Rightarrow> 'd) \<Rightarrow> 'd DocCollection" where
  "partialUpdateOne fld c f patch = c\<lparr>docs := update_first (matches fld f) patch (docs c)\<rparr>"

definition deleteOne :: "('d \<Rightarrow> string \<Rightarrow> val option) \<Rightarrow> 'd DocCollection \<Rightarrow> filter \<Rightarrow> 'd DocCollection" where
  "deleteOne fld c f = c\<lparr>docs := remove_first (matches fld f) (docs c)\<rparr>"

definition popOne ::
  "('d \<Rightarrow> string \<Rightarrow> val option) \<Rightarrow> 'd DocCollection \<Rightarrow> filter \<Rightarrow> (error + 'd) \<times> 'd DocCollection" where
  "popOne fld c f =
     (case readOne fld c f of
        None \<Rightarrow> (Inl NotFoundError, c)
      | Some d \<Rightarrow> (Inr d, deleteOne fld c f))"

definition assertDoesExist :: "'d option \<Rightarrow> error + 'd" where
  "assertDoesExist doc = (case doc of None \<Rightarrow> Inl NotFoundError | Some d \<Rightarrow> Inr d)"

definition assertDoesNotExist :: "'d option \<Rightarrow> error + unit" where
  "assertDoesNotExist doc = (case doc of None \<Rightarrow> Inr () | Some d \<Rightarrow> Inl NotAllowedError)"

text \<open>
  The store hands out each identifier once: the identifiers of a collection
  are pairwise different and below the next unused one.
\<close>

definition wf_collection :: "('a BaseDoc_scheme) DocCollection \<Rightarrow> bool" where
  "wf_collection c \<longleftrightarrow>
     distinct (map doc_id (docs c)) \<and> list_all (\<lambda>d. doc_id d < next_id c) (docs c)"

section \<open>Authenticating\<close>

record UserDoc = BaseDoc +
  username :: string
  password :: string

definition UserDoc_field :: "UserDoc \<Rightarrow> string \<Rightarrow> val option" where
  "UserDoc_field d f =
     (if f = ''_id'' then Some (VId (doc_id d))
      else if f = ''username'' then Some (VStr (username d))
      else if f = ''password'' then Some (VStr (password d))
      else None)"

record AuthenticatingConcept =
  users :: "UserDoc DocCollection"

definition assertUsernameUnique :: "AuthenticatingConcept \<Rightarrow> string \<Rightarrow> error + unit" where
  "assertUsernameUnique s username' =
     (let filter' = Fields [(''username'', Eq (VStr username'))] in
      case assertDoesNotExist (readOne UserDoc_field (users s) filter') of
        Inl e \<Rightarrow> Inl (if instanceof_NotAllowedError e then UserNotAllowedError else e)
      | Inr u \<Rightarrow> Inr ())"

text \<open>\<^verbatim>\<open>!username\<close> on a string is true exactly for the empty string.\<close>

definition assertGoodCredentials :: "AuthenticatingConcept \<Rightarrow> string \<Rightarrow> string \<Rightarrow> error + unit" where
  "assertGoodCredentials s username' password' =
     (if username' = [] \<or> password' = [] then Inl BadValuesError
      else assertUsernameUnique s username')"

definition register :: "AuthenticatingConcept \<Rightarrow> string \<Rightarrow> string \<Rightarrow> (error + ObjectId) \<times> AuthenticatingConcept" where
  "register s username' password' =
     (case assertGoodCredentials s username' password' of
        Inl e \<Rightarrow> (Inl e, s)
      | Inr u \<Rightarrow>
          (let (i, c) = createOne (users s)
                 (\<lambda>i. \<lparr>doc_id = i, username = username', password = password'\<rparr>)
           in (Inr i, s\<lparr>users := c\<rparr>)))"

text \<open>
  \<^verbatim>\<open>idsToUsernames\<close> builds a JavaScript \<^verbatim>\<open>Map\<close> from the users it read,
  keyed by the id; in a \<^verbatim>\<open>Map\<close> built from a list of entries a later entry
  replaces an earlier one with the same key, hence the \<open>rev\<close>.
\<close>

definition idsToUsernames :: "AuthenticatingConcept \<Rightarrow> ObjectId list \<Rightarrow> (error + string list) \<times> AuthenticatingConcept" where
  "idsToUsernames s ids =
     (let users' = readMany UserDoc_field (users s) (Fields [(''_id'', In (map VId ids))]);
          idToUser = map_of (rev (map (\<lambda>user. (doc_id user, user)) users'))
      in (Inr (map (\<lambda>i. case idToUser i of
                            None \<Rightarrow> ''DELETED_USER''
                          | Some user \<Rightarrow> username user) ids), s))"

text \<open>
  \<^verbatim>\<open>const filter = { _id, currentPassword }\<close> is the object with the two
  fields \<^verbatim>\<open>_id\<close> and \<^verbatim>\<open>currentPassword\<close>. The result of the update is an
  \<^verbatim>\<open>UpdateResult\<close> of the database driver, modelled as \<open>()\<close>.
\<close>

definition updatePassword ::
  "AuthenticatingConcept \<Rightarrow> ObjectId \<Rightarrow> string \<Rightarrow> string \<Rightarrow> (error + unit) \<times> AuthenticatingConcept" where
  "updatePassword s i currentPassword newPassword =
     (let filter' = Fields [(''_id'', Eq (VId i)), (''currentPassword'', Eq (VStr currentPassword))];
          user = readOne UserDoc_field (users s) filter'
      in case assertDoesExist user of
           Inl e \<Rightarrow> (Inl (if instanceof_NotFoundError e then UserNotFoundError else e), s)
         | Inr u \<Rightarrow>
             (Inr (), s\<lparr>users := partialUpdateOne UserDoc_field (users s)
                                   (Fields [(''_id'', Eq (VId i))])
                                   (\<lambda>d. d\<lparr>password := newPassword\<rparr>)\<rparr>))"

section \<open>Friending\<close>

record FriendshipDoc = BaseDoc +
  user1 :: ObjectId
  user2 :: ObjectId

datatype Status = pending | rejected | accepted

fun Status_str :: "Status \<Rightarrow> string" where
  "Status_str pending = ''pending''"
| "Status_str rejected = ''rejected''"
| "Status_str accepted = ''accepted''"

record FriendRequestDoc = BaseDoc +
  "from" :: ObjectId
  to :: ObjectId
  status :: Status

definition FriendshipDoc_field :: "FriendshipDoc \<Rightarrow> string \<Rightarrow> val option" where
  "FriendshipDoc_field d f =
     (if f = ''_id'' then Some (VId (doc_id d))
      else if f = ''user1'' then Some (VId (user1 d))
      else if f = ''user2'' then Some (VId (user2 d))
      else None)"

definition FriendRequestDoc_field :: "FriendRequestDoc \<Rightarrow> string \<Rightarrow> val option" where
  "FriendRequestDoc_field d f =
     (if f = ''_id'' then Some (VId (doc_id d))
      else if f = ''from'' then Some (VId (from d))
      else if f = ''to'' then Some (VId (to d))
      else if f = ''status'' then Some (VStr (Status_str (status d)))
      else None)"

record FriendingConcept =
  friends :: "FriendshipDoc DocCollection"
  requests :: "FriendRequestDoc DocCollection"

definition getRequests :: "FriendingConcept \<Rightarrow> ObjectId \<Rightarrow> (error + FriendRequestDoc list) \<times> FriendingConcept" where
  "getRequests s user =
     (Inr (readMany FriendRequestDoc_field (requests s)
             (Or [[(''from'', Eq (VId user))], [(''to'', Eq (VId user))]])), s)"

definition addFriend :: "FriendingConcept \<Rightarrow> ObjectId \<Rightarrow> ObjectId \<Rightarrow> ObjectId \<times> FriendingConcept" where
  "addFriend s u1 u2 =
     (let (i, c) = createOne (friends s) (\<lambda>i. \<lparr>doc_id = i, user1 = u1, user2 = u2\<rparr>)
      in (i, s\<lparr>friends := c\<rparr>))"

definition removePendingRequest ::
  "FriendingConcept \<Rightarrow> ObjectId \<Rightarrow> ObjectId \<Rightarrow> (error + FriendRequestDoc) \<times> FriendingConcept" where
  "removePendingRequest s from' to' =
     (case popOne FriendRequestDoc_field (requests s)
             (Fields [(''from'', Eq (VId from')), (''to'', Eq (VId to')),
                      (''status'', Eq (VStr ''pending''))]) of
        (Inl e, c) \<Rightarrow>
          (Inl (if instanceof_NotFoundError e then FriendRequestNotFoundError from' to' else e),
           s\<lparr>requests := c\<rparr>)
      | (Inr d, c) \<Rightarrow> (Inr d, s\<lparr>requests := c\<rparr>))"

definition assertNotFriends :: "FriendingConcept \<Rightarrow> ObjectId \<Rightarrow> ObjectId \<Rightarrow> error + unit" where
  "assertNotFriends s u1 u2 =
     (let friendship = readOne FriendshipDoc_field (friends s)
            (Or [[(''user1'', Eq (VId u1)), (''user2'', Eq (VId u2))],
                 [(''user1'', Eq (VId u2)), (''user2'', Eq (VId u1))]])
      in if friendship \<noteq> None \<or> u1 = u2 then Inl (AlreadyFriendsError u1 u2) else Inr ())"

definition canSendRequest :: "FriendingConcept \<Rightarrow> ObjectId \<Rightarrow> ObjectId \<Rightarrow> error + unit" where
  "canSendRequest s u1 u2 =
     (case assertNotFriends s u1 u2 of
        Inl e \<Rightarrow> Inl e
      | Inr u \<Rightarrow>
          (let request = readOne FriendRequestDoc_field (requests s)
                 (Fields [(''from'', In [VId u1, VId u2]), (''to'', In [VId u1, VId u2]),
                          (''status'', Eq (VStr ''pending''))])
           in if request \<noteq> None then Inl (FriendRequestAlreadyExistsError u1 u2) else Inr ()))"

definition createRequest ::
  "FriendingConcept \<Rightarrow> ObjectId \<Rightarrow> ObjectId \<Rightarrow> (error + ObjectId) \<times> FriendingConcept" where
  "createRequest s from' to' =
     (case canSendRequest s from' to' of
        Inl e \<Rightarrow> (Inl e, s)
      | Inr u \<Rightarrow>
          (let (i, c) = createOne (requests s)
                 (\<lambda>i. \<lparr>doc_id = i, from = from', to = to', status = pending\<rparr>)
           in (Inr i, s\<lparr>requests := c\<rparr>)))"

text \<open>
  \<^verbatim>\<open>Promise.all\<close> starts the insertion of the \<^verbatim>\<open>accepted\<close> row and
  \<^verbatim>\<open>addFriend\<close> in this order; they write to different collections.
\<close>

definition acceptRequest ::
  "FriendingConcept \<Rightarrow> ObjectId \<Rightarrow> ObjectId \<Rightarrow> (error + ObjectId \<times> ObjectId) \<times> FriendingConcept" where
  "acceptRequest s from' to' =
     (case removePendingRequest s from' to' of
        (Inl e, s1) \<Rightarrow> (Inl e, s1)
      | (Inr d, s1) \<Rightarrow>
          (let (requestId, c) = createOne (requests s1)
                 (\<lambda>i. \<lparr>doc_id = i, from = from', to = to', status = accepted\<rparr>);
               (friendId, s2) = addFriend (s1\<lparr>requests := c\<rparr>) from' to'
           in (Inr (requestId, friendId), s2)))"

definition rejectRequest ::
  "FriendingConcept \<Rightarrow> ObjectId \<Rightarrow> ObjectId \<Rightarrow> (error + ObjectId) \<times> FriendingConcept" where
  "rejectRequest s from' to' =
     (case removePendingRequest s from' to' of
        (Inl e, s1) \<Rightarrow> (Inl e, s1)
      | (Inr d, s1) \<Rightarrow>
          (let (i, c) = createOne (requests s1)
                 (\<lambda>i. \<lparr>doc_id = i, from = from', to = to', status = rejected\<rparr>)
           in (Inr i, s1\<lparr>requests := c\<rparr>)))"

definition removeRequest ::
  "FriendingConcept \<Rightarrow> ObjectId \<Rightarrow> ObjectId \<Rightarrow> (error + unit) \<times> FriendingConcept" where
  "removeRequest s from' to' =
     (case removePendingRequest s from' to' of
        (Inl e, s1) \<Rightarrow> (Inl e, s1)
      | (Inr d, s1) \<Rightarrow> (Inr (), s1))"

definition removeFriend ::
  "FriendingConcept \<Rightarrow> ObjectId \<Rightarrow> ObjectId \<Rightarrow> (error + unit) \<times> FriendingConcept" where
  "removeFriend s user friend =
     (case popOne FriendshipDoc_field (friends s)
             (Or [[(''user1'', Eq (VId user)), (''user2'', Eq (VId friend))],
                  [(''user1'', Eq (VId friend)), (''user2'', Eq (VId user))]]) of
        (Inl e, c) \<Rightarrow>
          (Inl (if instanceof_NotFoundError e then FriendNotFoundError user friend else e),
           s\<lparr>friends := c\<rparr>)
      | (Inr d, c) \<Rightarrow> (Inr (), s\<lparr>friends := c\<rparr>))"

definition getFriends :: "FriendingConcept \<Rightarrow> ObjectId \<Rightarrow> (error + ObjectId list) \<times> FriendingConcept" where
  "getFriends s user =
     (let friendships = readMany FriendshipDoc_field (friends s)
            (Or [[(''user1'', Eq (VId user))], [(''user2'', Eq (VId user))]])
      in (Inr (map (\<lambda>friendship. if user1 friendship = user then user2 friendship
                                   else user1 friendship) friendships), s))"

text \<open>
  The states of the concept: a new instance has two empty collections, and
  every public method that writes takes a state to the next one, whether it
  returns or throws.
\<close>

inductive reachable :: "FriendingConcept \<Rightarrow> bool" where
  init: "reachable \<lparr>friends = empty_collection n, requests = empty_collection m\<rparr>"
| step_createRequest: "reachable s \<Longrightarrow> reachable (snd (createRequest s a b))"
| step_acceptRequest: "reachable s \<Longrightarrow> reachable (snd (acceptRequest s a b))"
| step_rejectRequest: "reachable s \<Longrightarrow> reachable (snd (rejectRequest s a b))"
| step_removeRequest: "reachable s \<Longrightarrow> reachable (snd (removeRequest s a b))"
| step_removeFriend: "reachable s \<Longrightarrow> reachable (snd (removeFriend s a b))"

text \<open>
  What the claims speak of, written without the store's filters: the pending
  requests and the friendship edges between two users, in either direction.
\<close>

definition between_request :: "ObjectId \<Rightarrow> ObjectId \<Rightarrow> FriendRequestDoc \<Rightarrow> bool" where
  "between_request a b r \<longleftrightarrow>
     status r = pending \<and> ((from r = a \<and> to r = b) \<or> (from r = b \<and> to r = a))"

definition between_friendship :: "ObjectId \<Rightarrow> ObjectId \<Rightarrow> FriendshipDoc \<Rightarrow> bool" where
  "between_friendship a b f \<longleftrightarrow> (user1 f = a \<and> user2 f = b) \<or> (user1 f = b \<and> user2 f = a)"

definition pending_between :: "FriendingConcept \<Rightarrow> ObjectId \<Rightarrow> ObjectId \<Rightarrow> FriendRequestDoc list" where
  "pending_between s a b = filter (between_request a b) (docs (requests s))"

definition friendships_between :: "FriendingConcept \<Rightarrow> ObjectId \<Rightarrow> ObjectId \<Rightarrow> FriendshipDoc list" where
  "friendships_between s a b = filter (between_friendship a b) (docs (friends s))"

definition pending_from_to :: "ObjectId \<Rightarrow> ObjectId \<Rightarrow> FriendRequestDoc \<Rightarrow> bool" where
  "pending_from_to a b r \<longleftrightarrow> from r = a \<and> to r = b \<and> status r = pending"

text \<open>
  The invariant of the reachable states: between two users there is at most
  one record that is a pending request or a friendship, and no pending
  request is from a user to themselves. \<open>pending_among\<close> is what the
  \<^verbatim>\<open>$in\<close> filter of \<^verbatim>\<open>canSendRequest\<close> selects.
\<close>

definition inv_pair :: "FriendingConcept \<Rightarrow> bool" where
  "inv_pair s \<longleftrightarrow>
     (\<forall>a b. length (pending_between s a b) + length (friendships_between s a b) \<le> 1)"

definition inv_noself :: "FriendingConcept \<Rightarrow> bool" where
  "inv_noself s \<longleftrightarrow> (\<forall>r \<in> set (docs (requests s)). status r = pending \<longrightarrow> from r \<noteq> to r)"

definition pending_among :: "ObjectId \<Rightarrow> ObjectId \<Rightarrow> FriendRequestDoc \<Rightarrow> bool" where
  "pending_among a b r \<longleftrightarrow> status r = pending \<and> from r \<in> {a, b} \<and> to r \<in> {a, b}"

section \<open>Labelling\<close>

text \<open>
  \<^verbatim>\<open>Label\<close> is declared in \<^verbatim>\<open>concepts/types.ts\<close>; the routes validate it as
  a string. The set-valued field \<^verbatim>\<open>resources\<close> is not a filter value, and
  no filter of the class names it.
\<close>

type_synonym Label = string

record LabelDoc = BaseDoc +
  user :: ObjectId
  label :: Label
  resources :: "ObjectId set"

definition LabelDoc_field :: "LabelDoc \<Rightarrow> string \<Rightarrow> val option" where
  "LabelDoc_field d f =
     (if f = ''_id'' then Some (VId (doc_id d))
      else if f = ''user'' then Some (VId (LabelDoc.user d))
      else if f = ''label'' then Some (VStr (label d))
      else None)"

record LabellingConcept =
  labels :: "LabelDoc DocCollection"

definition label_user_filter :: "Label \<Rightarrow> ObjectId \<Rightarrow> filter" where
  "label_user_filter label' user' = Fields [(''label'', Eq (VStr label')), (''user'', Eq (VId user'))]"

definition assertLabelExists :: "LabellingConcept \<Rightarrow> Label \<Rightarrow> ObjectId \<Rightarrow> error + unit" where
  "assertLabelExists s label' user' =
     (let result = readOne LabelDoc_field (labels s) (label_user_filter label' user')
      in if result = None then Inl LabelNotFoundError else Inr ())"

definition assertLabelDoesNotExist :: "LabellingConcept \<Rightarrow> Label \<Rightarrow> ObjectId \<Rightarrow> error + unit" where
  "assertLabelDoesNotExist s label' user' =
     (let result = readOne LabelDoc_field (labels s) (label_user_filter label' user')
      in if result \<noteq> None then Inl LabelNotAllowedError else Inr ())"

text \<open>\<^verbatim>\<open>result?.resources.has(resource)\<close> is undefined, hence falsy, on null.\<close>

definition assertResourceExists :: "LabellingConcept \<Rightarrow> Label \<Rightarrow> ObjectId \<Rightarrow> ObjectId \<Rightarrow> error + unit" where
  "assertResourceExists s label' resource user' =
     (case assertLabelExists s label' user' of
        Inl e \<Rightarrow> Inl e
      | Inr u \<Rightarrow>
          (let result = readOne LabelDoc_field (labels s) (label_user_filter label' user')
           in if \<not> (case result of None \<Rightarrow> False | Some d \<Rightarrow> resource \<in> resources d)
              then Inl ResourceNotFoundError else Inr ()))"

definition assertResourceDoesNotExist :: "LabellingConcept \<Rightarrow> Label \<Rightarrow> ObjectId \<Rightarrow> ObjectId \<Rightarrow> error + unit" where
  "assertResourceDoesNotExist s label' resource user' =
     (case assertLabelExists s label' user' of
        Inl e \<Rightarrow> Inl e
      | Inr u \<Rightarrow>
          (let result = readOne LabelDoc_field (labels s) (label_user_filter label' user')
           in if (case result of None \<Rightarrow> False | Some d \<Rightarrow> resource \<in> resources d)
              then Inl ResourceNotAllowedError else Inr ()))"

definition Labelling_register ::
  "LabellingConcept \<Rightarrow> Label \<Rightarrow> ObjectId \<Rightarrow> (error + ObjectId) \<times> LabellingConcept" where
  "Labelling_register s label' user' =
     (case assertLabelDoesNotExist s label' user' of
        Inl e \<Rightarrow> (Inl e, s)
      | Inr u \<Rightarrow>
          (let (i, c) = createOne (labels s)
                 (\<lambda>i. \<lparr>doc_id = i, user = user', label = label', resources = {}\<rparr>)
           in (Inr i, s\<lparr>labels := c\<rparr>)))"

text \<open>
  \<^verbatim>\<open>add\<close> and \<^verbatim>\<open>remove\<close> end with
  \<^verbatim>\<open>const _label = await this.labels.readOne({ label, user })\<close> and a call of
  \<^verbatim>\<open>add\<close> or \<^verbatim>\<open>delete\<close> on \<^verbatim>\<open>_label?.resources\<close>: the set of the document
  that was read is changed, the method returns, and no operation of the store
  is called with the changed document. The local \<open>label_doc\<close> below is that
  changed document; the collection is the one the method started with.
\<close>

definition Labelling_add ::
  "LabellingConcept \<Rightarrow> ObjectId \<Rightarrow> Label \<Rightarrow> ObjectId \<Rightarrow> (error + unit) \<times> LabellingConcept" where
  "Labelling_add s resource label' user' =
     (case assertLabelExists s label' user' of
        Inl e \<Rightarrow> (Inl e, s)
      | Inr u \<Rightarrow>
          (case assertResourceDoesNotExist s label' resource user' of
             Inl e \<Rightarrow> (Inl e, s)
           | Inr u \<Rightarrow>
               (let label_doc = map_option (\<lambda>d. d\<lparr>resources := insert resource (resources d)\<rparr>)
                               (readOne LabelDoc_field (labels s) (label_user_filter label' user'))
                in (Inr (), s))))"

definition Labelling_remove ::
  "LabellingConcept \<Rightarrow> ObjectId \<Rightarrow> Label \<Rightarrow> ObjectId \<Rightarrow> (error + unit) \<times> LabellingConcept" where
  "Labelling_remove s resource label' user' =
     (case assertLabelExists s label' user' of
        Inl e \<Rightarrow> (Inl e, s)
      | Inr u \<Rightarrow>
          (case assertResourceExists s label' resource user' of
             Inl e \<Rightarrow> (Inl e, s)
           | Inr u \<Rightarrow>
               (let label_doc = map_option (\<lambda>d. d\<lparr>resources := resources d - {resource}\<rparr>)
                               (readOne LabelDoc_field (labels s) (label_user_filter label' user'))
                in (Inr (), s))))"

definition Labelling_get :: "LabellingConcept \<Rightarrow> ObjectId \<Rightarrow> (error + Label set) \<times> LabellingConcept" where
  "Labelling_get s resource =
     (let labels' = readMany LabelDoc_field (labels s) (Fields [])
      in (Inr (fold (\<lambda>element result.
                       if resource \<in> resources element then insert (label element) result
                       else result) labels' {}), s))"

section \<open>Sorting\<close>

text \<open>
  The weights are JavaScript numbers that the concept stores and returns and
  never computes with: their type is a parameter. \<^verbatim>\<open>Map.get\<close> gives
  \<^verbatim>\<open>undefined\<close> exactly for an absent key, a number being never undefined.
\<close>

record 'w SortDoc = BaseDoc +
  user :: ObjectId
  weights :: "Label \<rightharpoonup> 'w"

definition SortDoc_field :: "'w SortDoc \<Rightarrow> string \<Rightarrow> val option" where
  "SortDoc_field d f =
     (if f = ''_id'' then Some (VId (doc_id d))
      else if f = ''user'' then Some (VId (SortDoc.user d))
      else None)"

record 'w SortingConcept =
  sorts :: "'w SortDoc DocCollection"

definition Sort :: "'w SortDoc \<Rightarrow> ObjectId set \<Rightarrow> error + ObjectId list" where
  "Sort sort' feed = Inl NotImplementedError"

definition Sorting_sort ::
  "'w SortingConcept \<Rightarrow> ObjectId \<Rightarrow> ObjectId set \<Rightarrow> (error + ObjectId list) \<times> 'w SortingConcept" where
  "Sorting_sort s sortId feed =
     (case readOne SortDoc_field (sorts s) (ById sortId) of
        None \<Rightarrow> (Inl SortNotFoundError, s)
      | Some sort' \<Rightarrow> (Sort sort' feed, s))"

definition Sorting_add ::
  "'w SortingConcept \<Rightarrow> ObjectId \<Rightarrow> Label \<Rightarrow> 'w \<Rightarrow> ObjectId \<Rightarrow> (error + unit) \<times> 'w SortingConcept" where
  "Sorting_add s sortId label' weight user' =
     (case readOne SortDoc_field (sorts s) (ById sortId) of
        None \<Rightarrow> (Inl SortNotFoundError, s)
      | Some sort' \<Rightarrow>
          if weights sort' label' \<noteq> None then (Inl LabelNotAllowedError, s)
          else (Inr (), s\<lparr>sorts := partialUpdateOne SortDoc_field (sorts s) (ById sortId)
                  (\<lambda>d. d\<lparr>SortDoc.user := user', weights := (weights sort')(label' \<mapsto> weight)\<rparr>)\<rparr>))"

definition Sorting_remove ::
  "'w SortingConcept \<Rightarrow> ObjectId \<Rightarrow> Label \<Rightarrow> (error + unit) \<times> 'w SortingConcept" where
  "Sorting_remove s sortId label' =
     (case readOne SortDoc_field (sorts s) (ById sortId) of
        None \<Rightarrow> (Inl SortNotFoundError, s)
      | Some sort' \<Rightarrow>
          if \<not> weights sort' label' \<noteq> None then (Inl LabelNotFoundError, s)
          else (Inr (), s\<lparr>sorts := partialUpdateOne SortDoc_field (sorts s) (ById sortId)
                  (\<lambda>d. d\<lparr>weights := (weights sort')(label' := None)\<rparr>)\<rparr>))"

definition Sorting_set ::
  "'w SortingConcept \<Rightarrow> ObjectId \<Rightarrow> Label \<Rightarrow> 'w \<Rightarrow> ObjectId \<Rightarrow> (error + unit) \<times> 'w SortingConcept" where
  "Sorting_set s sortId label' weight user' =
     (case readOne SortDoc_field (sorts s) (ById sortId) of
        None \<Rightarrow> (Inl SortNotFoundError, s)
      | Some sort' \<Rightarrow>
          if \<not> weights sort' label' \<noteq> None then (Inl LabelNotAllowedError, s)
          else (Inr (), s\<lparr>sorts := partialUpdateOne SortDoc_field (sorts s) (ById sortId)
                  (\<lambda>d. d\<lparr>weights := (weights sort')(label' \<mapsto> weight)\<rparr>)\<rparr>))"

definition Sorting_get ::
  "'w SortingConcept \<Rightarrow> ObjectId \<Rightarrow> Label \<Rightarrow> (error + 'w) \<times> 'w SortingConcept" where
  "Sorting_get s sortId label' =
     (case readOne SortDoc_field (sorts s) (ById sortId) of
        None \<Rightarrow> (Inl SortNotFoundError, s)
      | Some sort' \<Rightarrow>
          (case weights sort' label' of
             None \<Rightarrow> (Inl LabelNotAllowedError, s)
           | Some result \<Rightarrow> (Inr result, s)))"

section \<open>Sourcing\<close>

text \<open>
  \<^verbatim>\<open>SourceTarget\<close> is declared in \<^verbatim>\<open>concepts/types.ts\<close>; the concept stores
  it and passes it on, so it is a type parameter. Both collections are opened
  under the one name the constructor is given; \<^verbatim>\<open>update\<close> reads through
  \<^verbatim>\<open>sources\<close> only.
\<close>

record 't SourceDoc = BaseDoc +
  user :: ObjectId
  path_uri :: string
  target :: 't
  contentIDs :: "ObjectId set"

record ContentDoc = BaseDoc +
  user :: ObjectId
  source :: ObjectId
  body :: "string option"

definition SourceDoc_field :: "'t SourceDoc \<Rightarrow> string \<Rightarrow> val option" where
  "SourceDoc_field d f =
     (if f = ''_id'' then Some (VId (doc_id d))
      else if f = ''user'' then Some (VId (SourceDoc.user d))
      else if f = ''path_uri'' then Some (VStr (path_uri d))
      else None)"

record 't SourcingConcept =
  sources :: "'t SourceDoc DocCollection"
  content :: "ContentDoc DocCollection"

definition Get :: "'t option \<Rightarrow> string option \<Rightarrow> error + ContentDoc set" where
  "Get target' uri = Inl NotImplementedError"

definition assertSourceExists :: "'t SourcingConcept \<Rightarrow> filter \<Rightarrow> error + unit" where
  "assertSourceExists s filter' =
     (let result = readOne SourceDoc_field (sources s) filter'
      in if result = None then Inl SourceNotAllowedError else Inr ())"

text \<open>
  The loop of \<^verbatim>\<open>update\<close> throws in its first iteration: it throws when the
  set is not empty and falls through when it is.
\<close>

definition Sourcing_update :: "'t SourcingConcept \<Rightarrow> ObjectId \<Rightarrow> (error + unit) \<times> 't SourcingConcept" where
  "Sourcing_update s sourceID =
     (case assertSourceExists s (ById sourceID) of
        Inl e \<Rightarrow> (Inl e, s)
      | Inr u \<Rightarrow>
          (let source' = readOne SourceDoc_field (sources s) (ById sourceID)
           in case Get (map_option target source') (map_option path_uri source') of
                Inl e \<Rightarrow> (Inl e, s)
              | Inr newContent \<Rightarrow>
                  (if newContent \<noteq> {} then Inl NotImplementedError else Inr (), s)))"

section \<open>Templating\<close>

datatype TemplateType = Markdown

datatype ResourceType = Text | Image

record TemplateDoc = BaseDoc +
  user :: ObjectId
  type :: TemplateType
  resources :: "ResourceType set"
  template :: ObjectId

record RenderDoc = BaseDoc +
  user :: ObjectId
  template :: ObjectId
  data :: "string \<rightharpoonup> ObjectId"

definition TemplateDoc_field :: "TemplateDoc \<Rightarrow> string \<Rightarrow> val option" where
  "TemplateDoc_field d f =
     (if f = ''_id'' then Some (VId (doc_id d))
      else if f = ''user'' then Some (VId (TemplateDoc.user d))
      else if f = ''template'' then Some (VId (TemplateDoc.template d))
      else None)"

record TemplatingConcept =
  templates :: "TemplateDoc DocCollection"
  renders :: "RenderDoc DocCollection"

definition assertTemplateExists :: "TemplatingConcept \<Rightarrow> ObjectId \<Rightarrow> error + unit" where
  "assertTemplateExists s template' =
     (let result = readOne TemplateDoc_field (templates s) (ById template')
      in if result = None then Inl TemplateNotFoundError else Inr ())"

definition Render ::
  "TemplatingConcept \<Rightarrow> ObjectId \<Rightarrow> (string \<rightharpoonup> ObjectId) \<Rightarrow> (error + ObjectId) \<times> TemplatingConcept" where
  "Render s template' data' = (Inl NotImplementedError, s)"

definition render ::
  "TemplatingConcept \<Rightarrow> ObjectId \<Rightarrow> (string \<rightharpoonup> ObjectId) \<Rightarrow> (error + ObjectId) \<times> TemplatingConcept" where
  "render s template' data' =
     (case assertTemplateExists s template' of
        Inl e \<Rightarrow> (Inl e, s)
      | Inr u \<Rightarrow> Render s template' data')"

section \<open>Example states\<close>

definition alice_store :: AuthenticatingConcept where
  "alice_store =
     \<lparr>users = \<lparr>docs = [\<lparr>doc_id = 1, username = ''alice'', password = ''old''\<rparr>], next_id = 2\<rparr>\<rparr>"

definition two_users :: AuthenticatingConcept where
  "two_users =
     \<lparr>users = \<lparr>docs = [\<lparr>doc_id = 1, username = ''alice'', password = ''old''\<rparr>,
                         \<lparr>doc_id = 2, username = ''bob'', password = ''pw''\<rparr>], next_id = 3\<rparr>\<rparr>"

definition no_friends :: FriendingConcept where
  "no_friends = \<lparr>friends = empty_collection 200, requests = empty_collection 100\<rparr>"

definition one_sort :: "int SortingConcept" where
  "one_sort =
     \<lparr>sorts = \<lparr>docs = [\<lparr>doc_id = 4, SortDoc.user = 1, weights = [''work'' \<mapsto> 3]\<rparr>], next_id = 5\<rparr>\<rparr>"

definition one_source :: "nat SourcingConcept" where
  "one_source =
     \<lparr>sources = \<lparr>docs = [\<lparr>doc_id = 2, SourceDoc.user = 1, path_uri = ''a.txt'', target = 0,
                            contentIDs = {}\<rparr>], next_id = 3\<rparr>,
      content = empty_collection 0\<rparr>"

definition one_template :: TemplatingConcept where
  "one_template =
     \<lparr>templates = \<lparr>docs = [\<lparr>doc_id = 6, TemplateDoc.user = 1, type = Markdown,
                              TemplateDoc.resources = {Text}, TemplateDoc.template = 9\<rparr>],
                    next_id = 7\<rparr>,
      renders = empty_collection 0\<rparr>"

definition no_labels :: LabellingConcept where
  "no_labels = \<lparr>labels = empty_collection 0\<rparr>"

definition work_registered :: LabellingConcept where
  "work_registered =
     \<lparr>labels = \<lparr>docs = [\<lparr>doc_id = 0, LabelDoc.user = 1, label = ''work'',
                          LabelDoc.resources = {}\<rparr>], next_id = 1\<rparr>\<rparr>"

definition work_sort :: "int SortDoc" where
  "work_sort = \<lparr>doc_id = 4, SortDoc.user = 1, weights = [''work'' \<mapsto> 3]\<rparr>"

definition one_pending :: FriendingConcept where
  "one_pending =
     \<lparr>friends = empty_collection 200,
      requests = \<lparr>docs = [\<lparr>doc_id = 100, from = 10, to = 20, status = pending\<rparr>],
                  next_id = 101\<rparr>\<rparr>"

definition one_friendship :: FriendingConcept where
  "one_friendship =
     \<lparr>friends = \<lparr>docs = [\<lparr>doc_id = 200, user1 = 10, user2 = 20\<rparr>], next_id = 201\<rparr>,
      requests = \<lparr>docs = [\<lparr>doc_id = 101, from = 10, to = 20, status = accepted\<rparr>],
                  next_id = 102\<rparr>\<rparr>"

section \<open>Facts about the store\<close>

lemma find_distinct_id:
  "distinct (map doc_id ds) \<Longrightarrow> d \<in> set ds \<Longrightarrow> find (\<lambda>x. doc_id x = doc_id d) ds = Some d"
  by (induction ds) (auto simp: rev_image_eqI)

lemma readOne_None_iff: "readOne fld c f = None \<longleftrightarrow> (\<forall>d \<in> set (docs c). \<not> matches fld f d)"
  by (auto simp: readOne_def find_None_iff)

lemma readOne_SomeD: "readOne fld c f = Some d \<Longrightarrow> d \<in> set (docs c) \<and> matches fld f d"
  by (auto simp: readOne_def find_Some_iff)

lemma readOne_ById:
  assumes "\<And>x. fld x ''_id'' = Some (VId (doc_id x))"
    and "distinct (map doc_id (docs c))" and "d \<in> set (docs c)"
  shows "readOne fld c (ById (doc_id d)) = Some d"
proof -
  have "matches fld (ById (doc_id d)) = (\<lambda>x. doc_id x = doc_id d)"
    by (rule ext) (simp add: assms(1))
  then show ?thesis
    unfolding readOne_def using find_distinct_id[OF assms(2,3)] by simp
qed

lemma update_first_by_id:
  "distinct (map doc_id ds) \<Longrightarrow>
   update_first (\<lambda>x. doc_id x = i) g ds = map (\<lambda>x. if doc_id x = i then g x else x) ds"
proof (induction ds)
  case Nil
  then show ?case by simp
next
  case (Cons d ds)
  show ?case
  proof (cases "doc_id d = i")
    case True
    with Cons.prems have "\<forall>x \<in> set ds. doc_id x \<noteq> i" by (auto simp: image_iff)
    then have "map (\<lambda>x. if doc_id x = i then g x else x) ds = ds"
      by (simp add: map_idI)
    with True show ?thesis by simp
  next
    case False
    with Cons show ?thesis by simp
  qed
qed

section \<open>Authenticating: registration, batch lookup, password change\<close>

lemma matches_username:
  "matches UserDoc_field (Fields [(''username'', Eq (VStr n))]) d \<longleftrightarrow> username d = n"
  by (simp add: all_hold_def UserDoc_field_def)

lemma assertUsernameUnique_iff:
  "assertUsernameUnique s n =
     (if \<exists>u \<in> set (docs (users s)). username u = n then Inl UserNotAllowedError else Inr ())"
proof (cases "readOne UserDoc_field (users s) (Fields [(''username'', Eq (VStr n))])")
  case None
  then have "\<not> (\<exists>u \<in> set (docs (users s)). username u = n)"
    by (simp add: readOne_def find_None_iff matches_username del: matches.simps)
  with None show ?thesis
    by (simp add: assertUsernameUnique_def assertDoesNotExist_def)
next
  case (Some u)
  then have "\<exists>u \<in> set (docs (users s)). username u = n"
    by (auto simp: readOne_def find_Some_iff matches_username simp del: matches.simps)
  with Some show ?thesis
    by (simp add: assertUsernameUnique_def assertDoesNotExist_def)
qed

text \<open>
  C6. \<^verbatim>\<open>register(username, password)\<close> fails with BadValues when either
  string is empty and leaves the users as they are; with both strings
  non-empty it fails with \<^verbatim>\<open>UserNotAllowedError\<close>, a NotAllowed error, when
  some user already has that username, whatever the password, and again
  leaves the users as they are; otherwise it appends a new user with these
  credentials under a fresh id and returns that id. The emptiness check comes
  first, as in the specification's list of failures.
\<close>

theorem register_cases:
  "(username' = [] \<or> password' = [] \<longrightarrow>
      register s username' password' = (Inl BadValuesError, s)) \<and>
   (username' \<noteq> [] \<and> password' \<noteq> [] \<and> (\<exists>u \<in> set (docs (users s)). username u = username') \<longrightarrow>
      register s username' password' = (Inl UserNotAllowedError, s) \<and>
      instanceof_NotAllowedError UserNotAllowedError) \<and>
   (username' \<noteq> [] \<and> password' \<noteq> [] \<and> (\<forall>u \<in> set (docs (users s)). username u \<noteq> username') \<longrightarrow>
      register s username' password' =
        (Inr (next_id (users s)),
         s\<lparr>users := \<lparr>docs = docs (users s) @
                              [\<lparr>doc_id = next_id (users s), username = username',
                                password = password'\<rparr>],
                      next_id = Suc (next_id (users s))\<rparr>\<rparr>))"
  by (auto simp: register_def assertGoodCredentials_def assertUsernameUnique_iff createOne_def)

theorem register_cases_witness:
  "register alice_store [] ''pw'' = (Inl BadValuesError, alice_store) \<and>
   register alice_store ''alice'' ''other'' = (Inl UserNotAllowedError, alice_store) \<and>
   register alice_store ''bob'' ''pw'' =
     (Inr 2, \<lparr>users = \<lparr>docs = [\<lparr>doc_id = 1, username = ''alice'', password = ''old''\<rparr>,
                                \<lparr>doc_id = 2, username = ''bob'', password = ''pw''\<rparr>],
                        next_id = 3\<rparr>\<rparr>)"
  using register_cases [where s = alice_store and username' = "[]" and password' = "''pw''"]
    register_cases [where s = alice_store and username' = "''alice''" and password' = "''other''"]
    register_cases [where s = alice_store and username' = "''bob''" and password' = "''pw''"]
  by (simp add: alice_store_def)

lemma matches_id_In:
  "matches UserDoc_field (Fields [(''_id'', In (map VId ids))]) d \<longleftrightarrow> doc_id d \<in> set ids"
  by (auto simp: all_hold_def UserDoc_field_def)

lemma map_of_by_id_Some:
  assumes "distinct (map doc_id us)" "u \<in> set us"
  shows "map_of (rev (map (\<lambda>x. (doc_id x, x)) us)) (doc_id u) = Some u"
proof -
  have "map fst (rev (map (\<lambda>x. (doc_id x, x)) us)) = rev (map doc_id us)"
    by (simp add: rev_map comp_def)
  then have "distinct (map fst (rev (map (\<lambda>x. (doc_id x, x)) us)))"
    using assms(1) by simp
  moreover have "(doc_id u, u) \<in> set (rev (map (\<lambda>x. (doc_id x, x)) us))"
    using assms(2) by auto
  ultimately show ?thesis by (rule map_of_is_SomeI)
qed

lemma map_of_by_id_None:
  assumes "\<forall>u \<in> set us. doc_id u \<noteq> i"
  shows "map_of (rev (map (\<lambda>x. (doc_id x, x)) us)) i = None"
  using assms by (auto simp: map_of_eq_None_iff)

text \<open>
  C7. On a collection of users with pairwise different ids,
  \<^verbatim>\<open>idsToUsernames(ids)\<close> returns (it has no throwing path) a list as long as
  \<open>ids\<close> and leaves the users as they are; position \<open>i\<close> holds the username
  of the user whose id is \<open>ids ! i\<close> when there is one, and the string
  \<^verbatim>\<open>DELETED_USER\<close> when there is none.
\<close>

theorem idsToUsernames_total:
  assumes "wf_collection (users s)"
  shows "\<exists>names. idsToUsernames s ids = (Inr names, s) \<and> length names = length ids \<and>
           (\<forall>i < length ids.
              (\<forall>u \<in> set (docs (users s)). doc_id u = ids ! i \<longrightarrow> names ! i = username u) \<and>
              ((\<forall>u \<in> set (docs (users s)). doc_id u \<noteq> ids ! i) \<longrightarrow>
                 names ! i = ''DELETED_USER''))"
proof -
  define us where "us = readMany UserDoc_field (users s) (Fields [(''_id'', In (map VId ids))])"
  have us_eq: "us = filter (\<lambda>d. doc_id d \<in> set ids) (docs (users s))"
    unfolding us_def readMany_def using matches_id_In by presburger
  have dist: "distinct (map doc_id us)"
    using assms unfolding us_eq wf_collection_def by (simp add: distinct_map_filter)
  define names where
    "names = map (\<lambda>i. case map_of (rev (map (\<lambda>x. (doc_id x, x)) us)) i of
                         None \<Rightarrow> ''DELETED_USER''
                       | Some x \<Rightarrow> username x) ids"
  have run: "idsToUsernames s ids = (Inr names, s)"
    by (simp add: idsToUsernames_def names_def us_def Let_def)
  have len: "length names = length ids" by (simp add: names_def)
  have found: "names ! i = username u"
    if "i < length ids" "u \<in> set (docs (users s))" "doc_id u = ids ! i" for i u
  proof -
    have "u \<in> set us" using that by (simp add: us_eq)
    from map_of_by_id_Some[OF dist this] that show ?thesis
      by (simp add: names_def)
  qed
  have missing: "names ! i = ''DELETED_USER''"
    if "i < length ids" "\<forall>u \<in> set (docs (users s)). doc_id u \<noteq> ids ! i" for i
  proof -
    have "\<forall>u \<in> set us. doc_id u \<noteq> ids ! i" using that by (simp add: us_eq)
    from map_of_by_id_None[OF this] that show ?thesis
      by (simp add: names_def)
  qed
  from run len found missing show ?thesis by blast
qed

theorem idsToUsernames_total_witness:
  "wf_collection (users two_users) \<and>
   idsToUsernames two_users [2, 7, 1] = (Inr [''bob'', ''DELETED_USER'', ''alice''], two_users)"
proof -
  have wf: "wf_collection (users two_users)"
    by (simp add: two_users_def wf_collection_def)
  have run: "idsToUsernames two_users [2, 7, 1] =
               (Inr [''bob'', ''DELETED_USER'', ''alice''], two_users)"
    by (simp add: idsToUsernames_def two_users_def readMany_def all_hold_def UserDoc_field_def)
  from idsToUsernames_total [OF wf, of "[2, 7, 1]"] run wf show ?thesis
    by simp
qed

lemma UserDoc_no_currentPassword:
  "\<not> matches UserDoc_field (Fields [(''_id'', Eq (VId i)), (''currentPassword'', Eq (VStr p))]) d"
  by (simp add: all_hold_def UserDoc_field_def)

lemma updatePassword_fails: "updatePassword s i cur new = (Inl UserNotFoundError, s)"
proof -
  have "readOne UserDoc_field (users s)
          (Fields [(''_id'', Eq (VId i)), (''currentPassword'', Eq (VStr cur))]) = None"
    unfolding readOne_def find_None_iff using UserDoc_no_currentPassword by blast
  then show ?thesis
    by (simp add: updatePassword_def assertDoesExist_def)
qed

text \<open>
  C3. The claim: \<^verbatim>\<open>updatePassword(id, currentPassword, newPassword)\<close> succeeds
  and stores \<open>newPassword\<close> when a user with that id has the stored password
  \<open>currentPassword\<close>. The method's filter names the field
  \<^verbatim>\<open>currentPassword\<close>, which no user document has: with the user
  \<open>(1, alice, old)\<close> stored, \<^verbatim>\<open>updatePassword(1, "old", "new")\<close> fails with
  \<^verbatim>\<open>UserNotFoundError\<close> and the stored password stays \<open>old\<close>.
\<close>

theorem updatePassword_matching_fails:
  "(\<exists>u \<in> set (docs (users alice_store)). doc_id u = 1 \<and> password u = ''old'') \<and>
   updatePassword alice_store 1 ''old'' ''new'' = (Inl UserNotFoundError, alice_store)"
  by (simp add: updatePassword_fails) (simp add: alice_store_def)

section \<open>Friending: requests and friendships\<close>

lemma set_remove_first: "set (remove_first P xs) \<subseteq> set xs"
  by (induction xs) auto

lemma filter_remove_first_le: "length (filter Q (remove_first P xs)) \<le> length (filter Q xs)"
  by (induction xs) auto

lemma filter_remove_first_other:
  "(\<And>x. P x \<Longrightarrow> \<not> Q x) \<Longrightarrow> filter Q (remove_first P xs) = filter Q xs"
  by (induction xs) auto

lemma filter_remove_first_Suc:
  "(\<And>x. P x \<Longrightarrow> Q x) \<Longrightarrow> \<exists>x \<in> set xs. P x \<Longrightarrow>
   Suc (length (filter Q (remove_first P xs))) = length (filter Q xs)"
  by (induction xs) auto

lemma Status_str_pending: "Status_str st = ''pending'' \<longleftrightarrow> st = pending"
  by (cases st) simp_all

lemma matches_pending_from_to:
  "matches FriendRequestDoc_field
     (Fields [(''from'', Eq (VId a)), (''to'', Eq (VId b)), (''status'', Eq (VStr ''pending''))]) =
   pending_from_to a b"
  by (rule ext) (auto simp: all_hold_def FriendRequestDoc_field_def pending_from_to_def
      Status_str_pending)

lemma matches_pending_among:
  "matches FriendRequestDoc_field
     (Fields [(''from'', In [VId a, VId b]), (''to'', In [VId a, VId b]),
              (''status'', Eq (VStr ''pending''))]) =
   pending_among a b"
  by (rule ext) (auto simp: all_hold_def FriendRequestDoc_field_def pending_among_def
      Status_str_pending)

lemma matches_between_friendship:
  "matches FriendshipDoc_field
     (Or [[(''user1'', Eq (VId a)), (''user2'', Eq (VId b))],
          [(''user1'', Eq (VId b)), (''user2'', Eq (VId a))]]) =
   between_friendship a b"
  by (rule ext) (auto simp: all_hold_def FriendshipDoc_field_def between_friendship_def)

lemma matches_friend_of:
  "matches FriendshipDoc_field (Or [[(''user1'', Eq (VId u))], [(''user2'', Eq (VId u))]]) =
   (\<lambda>f. user1 f = u \<or> user2 f = u)"
  by (rule ext) (auto simp: all_hold_def FriendshipDoc_field_def)

lemma find_None_filter: "find P xs = None \<longleftrightarrow> filter P xs = []"
  by (induction xs) auto

lemma find_Some_filter: "(\<exists>y. find P xs = Some y) \<longleftrightarrow> filter P xs \<noteq> []"
  using find_None_filter [of P xs] by auto

lemma canSendRequest_eq:
  "canSendRequest s a b =
     (if friendships_between s a b \<noteq> [] \<or> a = b then Inl (AlreadyFriendsError a b)
      else if filter (pending_among a b) (docs (requests s)) \<noteq> []
           then Inl (FriendRequestAlreadyExistsError a b)
           else Inr ())"
  by (simp add: canSendRequest_def assertNotFriends_def readOne_def matches_between_friendship
      matches_pending_among find_None_filter find_Some_filter friendships_between_def
      del: matches.simps)

lemma createRequest_eq:
  "createRequest s a b =
     (if friendships_between s a b \<noteq> [] \<or> a = b then (Inl (AlreadyFriendsError a b), s)
      else if filter (pending_among a b) (docs (requests s)) \<noteq> []
           then (Inl (FriendRequestAlreadyExistsError a b), s)
           else (Inr (next_id (requests s)),
                 s\<lparr>requests := \<lparr>docs = docs (requests s) @
                     [\<lparr>doc_id = next_id (requests s), from = a, to = b, status = pending\<rparr>],
                   next_id = Suc (next_id (requests s))\<rparr>\<rparr>))"
  by (simp add: createRequest_def canSendRequest_eq createOne_def)

lemma removePendingRequest_eq:
  "removePendingRequest s a b =
     (case find (pending_from_to a b) (docs (requests s)) of
        None \<Rightarrow> (Inl (FriendRequestNotFoundError a b), s)
      | Some d \<Rightarrow> (Inr d, s\<lparr>requests := (requests s)\<lparr>docs :=
                       remove_first (pending_from_to a b) (docs (requests s))\<rparr>\<rparr>))"
  by (simp add: removePendingRequest_def popOne_def readOne_def deleteOne_def
      matches_pending_from_to split: option.splits del: matches.simps)

lemma acceptRequest_eq:
  "acceptRequest s a b =
     (case find (pending_from_to a b) (docs (requests s)) of
        None \<Rightarrow> (Inl (FriendRequestNotFoundError a b), s)
      | Some d \<Rightarrow>
          (Inr (next_id (requests s), next_id (friends s)),
           \<lparr>friends = \<lparr>docs = docs (friends s) @
                         [\<lparr>doc_id = next_id (friends s), user1 = a, user2 = b\<rparr>],
                       next_id = Suc (next_id (friends s))\<rparr>,
            requests = \<lparr>docs = remove_first (pending_from_to a b) (docs (requests s)) @
                          [\<lparr>doc_id = next_id (requests s), from = a, to = b, status = accepted\<rparr>],
                        next_id = Suc (next_id (requests s))\<rparr>\<rparr>))"
  by (simp add: acceptRequest_def removePendingRequest_eq createOne_def addFriend_def
      split: option.splits)

lemma rejectRequest_eq:
  "rejectRequest s a b =
     (case find (pending_from_to a b) (docs (requests s)) of
        None \<Rightarrow> (Inl (FriendRequestNotFoundError a b), s)
      | Some d \<Rightarrow>
          (Inr (next_id (requests s)),
           s\<lparr>requests := \<lparr>docs = remove_first (pending_from_to a b) (docs (requests s)) @
                          [\<lparr>doc_id = next_id (requests s), from = a, to = b, status = rejected\<rparr>],
                        next_id = Suc (next_id (requests s))\<rparr>\<rparr>))"
  by (simp add: rejectRequest_def removePendingRequest_eq createOne_def split: option.splits)

lemma removeRequest_eq:
  "removeRequest s a b =
     (case find (pending_from_to a b) (docs (requests s)) of
        None \<Rightarrow> (Inl (FriendRequestNotFoundError a b), s)
      | Some d \<Rightarrow> (Inr (), s\<lparr>requests := (requests s)\<lparr>docs :=
                       remove_first (pending_from_to a b) (docs (requests s))\<rparr>\<rparr>))"
  by (simp add: removeRequest_def removePendingRequest_eq split: option.splits)

lemma removeFriend_eq:
  "removeFriend s a b =
     (case find (between_friendship a b) (docs (friends s)) of
        None \<Rightarrow> (Inl (FriendNotFoundError a b), s)
      | Some d \<Rightarrow> (Inr (), s\<lparr>friends := (friends s)\<lparr>docs :=
                       remove_first (between_friendship a b) (docs (friends s))\<rparr>\<rparr>))"
  by (simp add: removeFriend_def popOne_def readOne_def deleteOne_def
      matches_between_friendship split: option.splits del: matches.simps)

lemma getFriends_eq:
  "getFriends s u =
     (Inr (map (\<lambda>f. if user1 f = u then user2 f else user1 f)
             (filter (\<lambda>f. user1 f = u \<or> user2 f = u) (docs (friends s)))), s)"
  by (simp add: getFriends_def readMany_def matches_friend_of del: matches.simps)

lemma between_request_sym: "between_request a b = between_request b a"
  by (rule ext) (auto simp: between_request_def)

lemma between_friendship_sym: "between_friendship a b = between_friendship b a"
  by (rule ext) (auto simp: between_friendship_def)

lemma between_request_among: "between_request a b r \<Longrightarrow> pending_among a b r"
  by (auto simp: between_request_def pending_among_def)

lemma among_between_request:
  "pending_among a b r \<Longrightarrow> from r \<noteq> to r \<Longrightarrow> between_request a b r"
  by (auto simp: between_request_def pending_among_def)

lemma pending_from_to_between:
  "pending_from_to x y r \<Longrightarrow> between_request a b r \<longleftrightarrow> (x = a \<and> y = b) \<or> (x = b \<and> y = a)"
  by (auto simp: between_request_def pending_from_to_def)

lemma find_Some_ex: "find P xs = Some d \<Longrightarrow> \<exists>x \<in> set xs. P x"
  by (auto simp: find_Some_iff)

lemma inv_pair_createRequest:
  assumes "inv_pair s"
  shows "inv_pair (snd (createRequest s x y))"
proof (cases "friendships_between s x y \<noteq> [] \<or> x = y \<or>
              filter (pending_among x y) (docs (requests s)) \<noteq> []")
  case True
  then have "snd (createRequest s x y) = s"
    by (auto simp: createRequest_eq)
  with assms show ?thesis by simp
next
  case False
  define new where "new = \<lparr>doc_id = next_id (requests s), from = x, to = y, status = pending\<rparr>"
  define s' where "s' = snd (createRequest s x y)"
  from False have rq: "docs (requests s') = docs (requests s) @ [new]"
    and fr: "docs (friends s') = docs (friends s)"
    by (simp_all add: createRequest_eq s'_def new_def)
  from False have nofr: "friendships_between s x y = []"
    and nopend: "filter (pending_among x y) (docs (requests s)) = []" by simp_all
  have "length (pending_between s' a b) + length (friendships_between s' a b) \<le> 1" for a b
  proof (cases "(x = a \<and> y = b) \<or> (x = b \<and> y = a)")
    case True
    have "filter (between_request x y) (docs (requests s)) = []"
      using nopend between_request_among by (fastforce simp: filter_empty_conv)
    with True have "pending_between s a b = []"
      using between_request_sym[of x y] by (auto simp: pending_between_def)
    moreover from True nofr have "friendships_between s a b = []"
      using between_friendship_sym[of x y] by (auto simp: friendships_between_def)
    ultimately show ?thesis
      by (simp add: pending_between_def friendships_between_def rq fr)
  next
    case False
    then have "\<not> between_request a b new"
      by (auto simp: between_request_def new_def)
    then have "pending_between s' a b = pending_between s a b"
      by (simp add: pending_between_def rq)
    moreover have "friendships_between s' a b = friendships_between s a b"
      by (simp add: friendships_between_def fr)
    ultimately show ?thesis using assms by (simp add: inv_pair_def)
  qed
  then show ?thesis by (simp add: inv_pair_def s'_def)
qed

lemma inv_pair_acceptRequest:
  assumes "inv_pair s"
  shows "inv_pair (snd (acceptRequest s x y))"
proof (cases "find (pending_from_to x y) (docs (requests s))")
  case None
  then show ?thesis using assms by (simp add: acceptRequest_eq)
next
  case (Some d)
  define s' where "s' = snd (acceptRequest s x y)"
  from Some have rq: "docs (requests s') =
      remove_first (pending_from_to x y) (docs (requests s)) @
        [\<lparr>doc_id = next_id (requests s), from = x, to = y, status = accepted\<rparr>]"
    and fr: "docs (friends s') =
      docs (friends s) @ [\<lparr>doc_id = next_id (friends s), user1 = x, user2 = y\<rparr>]"
    by (simp_all add: acceptRequest_eq s'_def)
  from Some have ex: "\<exists>r \<in> set (docs (requests s)). pending_from_to x y r"
    by (rule find_Some_ex)
  have "length (pending_between s' a b) + length (friendships_between s' a b) \<le> 1" for a b
  proof (cases "(x = a \<and> y = b) \<or> (x = b \<and> y = a)")
    case True
    then have "\<And>r. pending_from_to x y r \<Longrightarrow> between_request a b r"
      by (simp add: pending_from_to_between)
    from filter_remove_first_Suc[of "pending_from_to x y" "between_request a b", OF this ex]
    have "Suc (length (pending_between s' a b)) = length (pending_between s a b)"
      by (simp add: pending_between_def rq between_request_def)
    moreover from True have "length (friendships_between s' a b) = Suc (length (friendships_between s a b))"
      by (auto simp: friendships_between_def fr between_friendship_def)
    ultimately show ?thesis using assms[unfolded inv_pair_def, rule_format, of a b] by linarith
  next
    case False
    then have "\<And>r. pending_from_to x y r \<Longrightarrow> \<not> between_request a b r"
      by (simp add: pending_from_to_between)
    from filter_remove_first_other[of "pending_from_to x y" "between_request a b", OF this]
    have "pending_between s' a b = pending_between s a b"
      by (simp add: pending_between_def rq between_request_def)
    moreover from False have "friendships_between s' a b = friendships_between s a b"
      by (auto simp: friendships_between_def fr between_friendship_def)
    ultimately show ?thesis using assms by (simp add: inv_pair_def)
  qed
  then show ?thesis by (simp add: inv_pair_def s'_def)
qed

lemma inv_pair_shrink:
  assumes "inv_pair s"
    and "\<And>a b. length (pending_between s' a b) \<le> length (pending_between s a b)"
    and "\<And>a b. length (friendships_between s' a b) \<le> length (friendships_between s a b)"
  shows "inv_pair s'"
  unfolding inv_pair_def
proof (intro allI)
  fix a b
  from assms(1) have "length (pending_between s a b) + length (friendships_between s a b) \<le> 1"
    by (simp add: inv_pair_def)
  with assms(2)[of a b] assms(3)[of a b]
  show "length (pending_between s' a b) + length (friendships_between s' a b) \<le> 1"
    by linarith
qed

lemma inv_pair_rejectRequest:
  assumes "inv_pair s"
  shows "inv_pair (snd (rejectRequest s x y))"
proof (rule inv_pair_shrink[OF assms])
  fix a b
  show "length (pending_between (snd (rejectRequest s x y)) a b) \<le> length (pending_between s a b)"
    by (simp add: rejectRequest_eq pending_between_def between_request_def[of a b "\<lparr>doc_id = _, from = _, to = _, status = rejected\<rparr>"]
        filter_remove_first_le split: option.splits)
  show "length (friendships_between (snd (rejectRequest s x y)) a b) \<le> length (friendships_between s a b)"
    by (simp add: rejectRequest_eq friendships_between_def split: option.splits)
qed

lemma inv_pair_removeRequest:
  assumes "inv_pair s"
  shows "inv_pair (snd (removeRequest s x y))"
proof (rule inv_pair_shrink[OF assms])
  fix a b
  show "length (pending_between (snd (removeRequest s x y)) a b) \<le> length (pending_between s a b)"
    by (simp add: removeRequest_eq pending_between_def filter_remove_first_le split: option.splits)
  show "length (friendships_between (snd (removeRequest s x y)) a b) \<le> length (friendships_between s a b)"
    by (simp add: removeRequest_eq friendships_between_def split: option.splits)
qed

lemma inv_pair_removeFriend:
  assumes "inv_pair s"
  shows "inv_pair (snd (removeFriend s x y))"
proof (rule inv_pair_shrink[OF assms])
  fix a b
  show "length (pending_between (snd (removeFriend s x y)) a b) \<le> length (pending_between s a b)"
    by (simp add: removeFriend_eq pending_between_def split: option.splits)
  show "length (friendships_between (snd (removeFriend s x y)) a b) \<le> length (friendships_between s a b)"
    by (simp add: removeFriend_eq friendships_between_def filter_remove_first_le split: option.splits)
qed

lemma inv_noself_createRequest: "inv_noself s \<Longrightarrow> inv_noself (snd (createRequest s x y))"
  by (auto simp: createRequest_eq inv_noself_def)

lemma inv_noself_acceptRequest: "inv_noself s \<Longrightarrow> inv_noself (snd (acceptRequest s x y))"
  using set_remove_first[of "pending_from_to x y" "docs (requests s)"]
  by (auto simp: acceptRequest_eq inv_noself_def split: option.splits)

lemma inv_noself_rejectRequest: "inv_noself s \<Longrightarrow> inv_noself (snd (rejectRequest s x y))"
  using set_remove_first[of "pending_from_to x y" "docs (requests s)"]
  by (auto simp: rejectRequest_eq inv_noself_def split: option.splits)

lemma inv_noself_removeRequest: "inv_noself s \<Longrightarrow> inv_noself (snd (removeRequest s x y))"
  using set_remove_first[of "pending_from_to x y" "docs (requests s)"]
  by (auto simp: removeRequest_eq inv_noself_def split: option.splits)

lemma inv_noself_removeFriend: "inv_noself s \<Longrightarrow> inv_noself (snd (removeFriend s x y))"
  by (auto simp: removeFriend_eq inv_noself_def split: option.splits)

lemma reachable_inv: "reachable s \<Longrightarrow> inv_pair s \<and> inv_noself s"
proof (induction rule: reachable.induct)
  case (init n m)
  show ?case
    by (simp add: inv_pair_def inv_noself_def pending_between_def friendships_between_def
        empty_collection_def)
next
  case (step_createRequest s a b)
  then show ?case by (simp add: inv_pair_createRequest inv_noself_createRequest)
next
  case (step_acceptRequest s a b)
  then show ?case by (simp add: inv_pair_acceptRequest inv_noself_acceptRequest)
next
  case (step_rejectRequest s a b)
  then show ?case by (simp add: inv_pair_rejectRequest inv_noself_rejectRequest)
next
  case (step_removeRequest s a b)
  then show ?case by (simp add: inv_pair_removeRequest inv_noself_removeRequest)
next
  case (step_removeFriend s a b)
  then show ?case by (simp add: inv_pair_removeFriend inv_noself_removeFriend)
qed

lemma pending_empty_iff:
  assumes "inv_noself s"
  shows "filter (pending_among a b) (docs (requests s)) = [] \<longleftrightarrow> pending_between s a b = []"
  using assms between_request_among among_between_request
  unfolding pending_between_def filter_empty_conv inv_noself_def pending_among_def
  by blast

text \<open>
  C2. In every state reachable by the Friending operations, and for two
  different users: at most one pending request exists between them, in either
  direction; \<^verbatim>\<open>createRequest\<close> fails with a NotAllowed error, and changes
  nothing, when a friendship or a pending request exists between them in
  either direction; otherwise it appends a new pending request from the first
  user to the second under a fresh id and returns that id.
\<close>

theorem createRequest_reachable:
  assumes "reachable s" and "a \<noteq> b"
  shows "length (pending_between s a b) \<le> 1 \<and>
    (friendships_between s a b \<noteq> [] \<or> pending_between s a b \<noteq> [] \<longrightarrow>
       (\<exists>e. createRequest s a b = (Inl e, s) \<and> instanceof_NotAllowedError e)) \<and>
    (friendships_between s a b = [] \<and> pending_between s a b = [] \<longrightarrow>
       createRequest s a b =
         (Inr (next_id (requests s)),
          s\<lparr>requests := \<lparr>docs = docs (requests s) @
                [\<lparr>doc_id = next_id (requests s), from = a, to = b, status = pending\<rparr>],
              next_id = Suc (next_id (requests s))\<rparr>\<rparr>))"
proof -
  from assms(1) have pair: "inv_pair s" and noself: "inv_noself s"
    using reachable_inv by blast+
  from pair have "length (pending_between s a b) + length (friendships_between s a b) \<le> 1"
    by (simp add: inv_pair_def)
  then have one: "length (pending_between s a b) \<le> 1" by linarith
  have fails: "\<exists>e. createRequest s a b = (Inl e, s) \<and> instanceof_NotAllowedError e"
    if "friendships_between s a b \<noteq> [] \<or> pending_between s a b \<noteq> []"
    using that by (auto simp: createRequest_eq pending_empty_iff[OF noself])
  have creates: "createRequest s a b =
         (Inr (next_id (requests s)),
          s\<lparr>requests := \<lparr>docs = docs (requests s) @
                [\<lparr>doc_id = next_id (requests s), from = a, to = b, status = pending\<rparr>],
              next_id = Suc (next_id (requests s))\<rparr>\<rparr>)"
    if "friendships_between s a b = [] \<and> pending_between s a b = []"
    using that assms(2) by (simp add: createRequest_eq pending_empty_iff[OF noself])
  from one fails creates show ?thesis by blast
qed

text \<open>
  C1. When a pending request from \<open>a\<close> to \<open>b\<close> is stored,
  \<^verbatim>\<open>acceptRequest(a, b)\<close> returns the ids of two new documents; the
  requests afterwards are the old ones without the first pending request from
  \<open>a\<close> to \<open>b\<close> (one pending request from \<open>a\<close> to \<open>b\<close> fewer) and with a
  new \<^verbatim>\<open>accepted\<close> row at the end; the friendships afterwards are the old
  ones and exactly one new edge \<open>(a, b)\<close>; \<^verbatim>\<open>getFriends(a)\<close> then contains
  \<open>b\<close> and \<^verbatim>\<open>getFriends(b)\<close> contains \<open>a\<close>. In a reachable state no
  pending request between the two is left and the new edge is the only
  friendship between them.
\<close>

theorem acceptRequest_pending:
  assumes "\<exists>r \<in> set (docs (requests s)). pending_from_to a b r"
  shows "fst (acceptRequest s a b) = Inr (next_id (requests s), next_id (friends s)) \<and>
    docs (requests (snd (acceptRequest s a b))) =
      remove_first (pending_from_to a b) (docs (requests s)) @
        [\<lparr>doc_id = next_id (requests s), from = a, to = b, status = accepted\<rparr>] \<and>
    Suc (length (filter (pending_from_to a b) (docs (requests (snd (acceptRequest s a b)))))) =
      length (filter (pending_from_to a b) (docs (requests s))) \<and>
    docs (friends (snd (acceptRequest s a b))) =
      docs (friends s) @ [\<lparr>doc_id = next_id (friends s), user1 = a, user2 = b\<rparr>] \<and>
    (\<exists>fs. fst (getFriends (snd (acceptRequest s a b)) a) = Inr fs \<and> b \<in> set fs) \<and>
    (\<exists>fs. fst (getFriends (snd (acceptRequest s a b)) b) = Inr fs \<and> a \<in> set fs) \<and>
    (reachable s \<longrightarrow>
       pending_between (snd (acceptRequest s a b)) a b = [] \<and>
       length (friendships_between (snd (acceptRequest s a b)) a b) = 1)"
proof -
  define s' where "s' = snd (acceptRequest s a b)"
  from assms obtain d where d: "find (pending_from_to a b) (docs (requests s)) = Some d"
    by (cases "find (pending_from_to a b) (docs (requests s))") (auto simp: find_None_iff)
  from d have res: "fst (acceptRequest s a b) = Inr (next_id (requests s), next_id (friends s))"
    by (simp add: acceptRequest_eq)
  from d have rq: "docs (requests s') =
      remove_first (pending_from_to a b) (docs (requests s)) @
        [\<lparr>doc_id = next_id (requests s), from = a, to = b, status = accepted\<rparr>]"
    and fr: "docs (friends s') =
      docs (friends s) @ [\<lparr>doc_id = next_id (friends s), user1 = a, user2 = b\<rparr>]"
    by (simp_all add: acceptRequest_eq s'_def)
  from filter_remove_first_Suc[of "pending_from_to a b" "pending_from_to a b", OF _ assms]
  have cnt: "Suc (length (filter (pending_from_to a b) (docs (requests s')))) =
      length (filter (pending_from_to a b) (docs (requests s)))"
    by (simp add: rq pending_from_to_def)
  have ga: "\<exists>fs. fst (getFriends s' a) = Inr fs \<and> b \<in> set fs"
    by (auto simp: getFriends_eq fr)
  have gb: "\<exists>fs. fst (getFriends s' b) = Inr fs \<and> a \<in> set fs"
    by (auto simp: getFriends_eq fr image_iff)
  have re: "pending_between s' a b = [] \<and> length (friendships_between s' a b) = 1"
    if "reachable s"
  proof -
    from that have "reachable s'"
      unfolding s'_def by (rule reachable.step_acceptRequest)
    then have "inv_pair s'" using reachable_inv by blast
    then have "length (pending_between s' a b) + length (friendships_between s' a b) \<le> 1"
      by (simp add: inv_pair_def)
    moreover have "length (friendships_between s' a b) =
        Suc (length (friendships_between s a b))"
      by (simp add: friendships_between_def fr between_friendship_def)
    ultimately show ?thesis by simp
  qed
  from res rq cnt fr ga gb re show ?thesis unfolding s'_def by blast
qed

lemma reachable_no_friends: "reachable no_friends"
  unfolding no_friends_def by (rule reachable.init)

lemma create_10_20: "createRequest no_friends 10 20 = (Inr 100, one_pending)"
  by (simp add: createRequest_eq no_friends_def one_pending_def empty_collection_def
      friendships_between_def)

lemma reachable_one_pending: "reachable one_pending"
  using reachable.step_createRequest[OF reachable_no_friends, of 10 20] by (simp add: create_10_20)

lemma accept_10_20: "acceptRequest one_pending 10 20 = (Inr (101, 200), one_friendship)"
  by (simp add: acceptRequest_eq one_pending_def one_friendship_def empty_collection_def
      pending_from_to_def)

lemma reachable_one_friendship: "reachable one_friendship"
  using reachable.step_acceptRequest[OF reachable_one_pending, of 10 20] by (simp add: accept_10_20)

theorem createRequest_reachable_witness:
  "reachable no_friends \<and> reachable one_pending \<and> reachable one_friendship \<and>
   createRequest no_friends 10 20 = (Inr 100, one_pending) \<and>
   createRequest one_pending 20 10 = (Inl (FriendRequestAlreadyExistsError 20 10), one_pending) \<and>
   createRequest one_friendship 20 10 = (Inl (AlreadyFriendsError 20 10), one_friendship) \<and>
   length (pending_between one_pending 20 10) = 1"
proof -
  have ne: "(10::nat) \<noteq> 20" "(20::nat) \<noteq> 10" by simp_all
  have e1: "createRequest one_pending 20 10 =
              (Inl (FriendRequestAlreadyExistsError 20 10), one_pending)"
    by (simp add: createRequest_eq one_pending_def empty_collection_def friendships_between_def
        pending_among_def)
  have e2: "createRequest one_friendship 20 10 = (Inl (AlreadyFriendsError 20 10), one_friendship)"
    by (simp add: createRequest_eq one_friendship_def friendships_between_def
        between_friendship_def)
  have e3: "length (pending_between one_pending 20 10) = 1"
    by (simp add: pending_between_def one_pending_def between_request_def)
  from createRequest_reachable[OF reachable_no_friends ne(1)]
    createRequest_reachable[OF reachable_one_pending ne(2)]
    createRequest_reachable[OF reachable_one_friendship ne(2)]
    reachable_no_friends reachable_one_pending reachable_one_friendship create_10_20 e1 e2 e3
  show ?thesis by simp
qed

theorem acceptRequest_pending_witness:
  "reachable one_pending \<and>
   acceptRequest one_pending 10 20 = (Inr (101, 200), one_friendship) \<and>
   getFriends one_friendship 10 = (Inr [20], one_friendship) \<and>
   getFriends one_friendship 20 = (Inr [10], one_friendship) \<and>
   pending_between one_friendship 10 20 = [] \<and>
   length (friendships_between one_friendship 10 20) = 1"
proof -
  have ex: "\<exists>r \<in> set (docs (requests one_pending)). pending_from_to 10 20 r"
    by (simp add: one_pending_def pending_from_to_def)
  have g1: "getFriends one_friendship 10 = (Inr [20], one_friendship)"
    and g2: "getFriends one_friendship 20 = (Inr [10], one_friendship)"
    by (simp_all add: getFriends_eq one_friendship_def)
  from acceptRequest_pending[OF ex] reachable_one_pending
  have "pending_between (snd (acceptRequest one_pending 10 20)) 10 20 = [] \<and>
        length (friendships_between (snd (acceptRequest one_pending 10 20)) 10 20) = 1"
    by blast
  then have "pending_between one_friendship 10 20 = [] \<and>
        length (friendships_between one_friendship 10 20) = 1"
    by (simp add: accept_10_20)
  with reachable_one_pending accept_10_20 g1 g2 show ?thesis by simp
qed

text \<open>
  C10. \<^verbatim>\<open>createRequest(u, u)\<close> fails with \<^verbatim>\<open>AlreadyFriendsError\<close>, a NotAllowed
  error, in every state, and both collections are as they were.
\<close>

theorem createRequest_self:
  "createRequest s u u = (Inl (AlreadyFriendsError u u), s) \<and>
   instanceof_NotAllowedError (AlreadyFriendsError u u)"
  by (simp add: createRequest_def canSendRequest_def assertNotFriends_def)

theorem createRequest_self_witness:
  "createRequest no_friends 5 5 = (Inl (AlreadyFriendsError 5 5), no_friends) \<and>
   docs (friends no_friends) = [] \<and> docs (requests no_friends) = []"
  using createRequest_self [of no_friends 5] by (simp add: no_friends_def empty_collection_def)

section \<open>Labelling: resources of a label\<close>

lemma Labelling_add_state: "snd (Labelling_add s r l u) = s"
  by (simp add: Labelling_add_def split: sum.splits)

lemma Labelling_remove_state: "snd (Labelling_remove s r l u) = s"
  by (simp add: Labelling_remove_def split: sum.splits)

lemma register_work:
  "Labelling_register no_labels ''work'' 1 = (Inr 0, work_registered)"
  by (simp add: Labelling_register_def assertLabelDoesNotExist_def readOne_def no_labels_def
      empty_collection_def createOne_def work_registered_def)

lemma add_work:
  "Labelling_add work_registered 7 ''work'' 1 = (Inr (), work_registered)"
  by (simp add: Labelling_add_def assertLabelExists_def assertResourceDoesNotExist_def
      readOne_def label_user_filter_def all_hold_def LabelDoc_field_def work_registered_def)

lemma get_work:
  "Labelling_get work_registered 7 = (Inr {}, work_registered)"
  by (simp add: Labelling_get_def readMany_def all_hold_def work_registered_def)

lemma remove_work:
  "Labelling_remove work_registered 7 ''work'' 1 = (Inl ResourceNotFoundError, work_registered)"
  by (simp add: Labelling_remove_def assertLabelExists_def assertResourceExists_def
      readOne_def label_user_filter_def all_hold_def LabelDoc_field_def work_registered_def)

lemma Labelling_add_no_label:
  assumes "\<forall>d \<in> set (docs (labels s)). \<not> (label d = l \<and> LabelDoc.user d = u)"
  shows "Labelling_add s r l u = (Inl LabelNotFoundError, s)"
proof -
  from assms have "readOne LabelDoc_field (labels s) (label_user_filter l u) = None"
    by (auto simp: readOne_None_iff label_user_filter_def all_hold_def LabelDoc_field_def)
  then show ?thesis
    by (simp add: Labelling_add_def assertLabelExists_def)
qed

text \<open>
  C4. The claim: after \<^verbatim>\<open>register("work", U)\<close> and \<^verbatim>\<open>add(R1, "work", U)\<close>,
  \<^verbatim>\<open>get(R1)\<close> contains \<^verbatim>\<open>work\<close>. With no label stored, user 1 and
  resource 7: the registration stores the label with an empty resource set,
  \<^verbatim>\<open>add\<close> returns without an error and the stored label is as before, and
  \<^verbatim>\<open>get(7)\<close> returns the empty set.
\<close>

theorem Labelling_add_not_stored:
  "Labelling_register no_labels ''work'' 1 = (Inr 0, work_registered) \<and>
   Labelling_add work_registered 7 ''work'' 1 = (Inr (), work_registered) \<and>
   Labelling_get work_registered 7 = (Inr {}, work_registered)"
  using register_work add_work get_work by simp

text \<open>
  C5. The claim: a second \<^verbatim>\<open>add\<close> of the same resource fails with
  NotAllowed, and a \<^verbatim>\<open>remove\<close> after a successful \<^verbatim>\<open>add\<close> succeeds. With
  the label \<^verbatim>\<open>work\<close> of user 1 stored and resource 7: the first
  \<^verbatim>\<open>add\<close> returns without an error, the second \<^verbatim>\<open>add\<close> does so again,
  and \<^verbatim>\<open>remove\<close> after the first \<^verbatim>\<open>add\<close> fails with
  \<^verbatim>\<open>ResourceNotFoundError\<close>.
\<close>

theorem Labelling_second_add_and_remove:
  "Labelling_add work_registered 7 ''work'' 1 = (Inr (), work_registered) \<and>
   Labelling_add (snd (Labelling_add work_registered 7 ''work'' 1)) 7 ''work'' 1 =
     (Inr (), work_registered) \<and>
   Labelling_remove (snd (Labelling_add work_registered 7 ''work'' 1)) 7 ''work'' 1 =
     (Inl ResourceNotFoundError, work_registered)"
  using add_work remove_work by simp

section \<open>Sorting: the weights of a profile\<close>

lemma SortDoc_matches_ById: "matches SortDoc_field (ById i) = (\<lambda>x. doc_id x = i)"
  by (rule ext) (simp add: SortDoc_field_def)

lemma Sorting_readOne:
  assumes "wf_collection (sorts s)" and "d \<in> set (docs (sorts s))"
  shows "readOne SortDoc_field (sorts s) (ById (doc_id d)) = Some d"
  using assms by (intro readOne_ById) (simp_all add: SortDoc_field_def wf_collection_def)

lemma Sorting_partialUpdateOne:
  assumes "wf_collection c"
  shows "partialUpdateOne SortDoc_field c (ById i) g =
           c\<lparr>docs := map (\<lambda>x. if doc_id x = i then g x else x) (docs c)\<rparr>"
  using assms
  by (simp add: partialUpdateOne_def SortDoc_matches_ById update_first_by_id wf_collection_def
      del: matches.simps)

lemma Sorting_present:
  assumes "wf_collection (sorts s)" and "d \<in> set (docs (sorts s))" and "weights d l = Some v"
  shows "Sorting_add s (doc_id d) l w u = (Inl LabelNotAllowedError, s)"
    and "Sorting_set s (doc_id d) l w u =
           (Inr (), s\<lparr>sorts := (sorts s)\<lparr>docs :=
              map (\<lambda>x. if doc_id x = doc_id d then x\<lparr>weights := (weights d)(l \<mapsto> w)\<rparr> else x)
                (docs (sorts s))\<rparr>\<rparr>)"
    and "Sorting_get s (doc_id d) l = (Inr v, s)"
    and "Sorting_remove s (doc_id d) l =
           (Inr (), s\<lparr>sorts := (sorts s)\<lparr>docs :=
              map (\<lambda>x. if doc_id x = doc_id d then x\<lparr>weights := (weights d)(l := None)\<rparr> else x)
                (docs (sorts s))\<rparr>\<rparr>)"
  using assms(3)
  by (simp_all add: Sorting_add_def Sorting_set_def Sorting_get_def Sorting_remove_def
      Sorting_readOne[OF assms(1,2)] Sorting_partialUpdateOne[OF assms(1)])

lemma Sorting_absent:
  assumes "wf_collection (sorts s)" and "d \<in> set (docs (sorts s))" and "weights d l = None"
  shows "Sorting_add s (doc_id d) l w u =
           (Inr (), s\<lparr>sorts := (sorts s)\<lparr>docs :=
              map (\<lambda>x. if doc_id x = doc_id d
                        then x\<lparr>SortDoc.user := u, weights := (weights d)(l \<mapsto> w)\<rparr> else x)
                (docs (sorts s))\<rparr>\<rparr>)"
    and "Sorting_set s (doc_id d) l w u = (Inl LabelNotAllowedError, s)"
    and "Sorting_get s (doc_id d) l = (Inl LabelNotAllowedError, s)"
    and "Sorting_remove s (doc_id d) l = (Inl LabelNotFoundError, s)"
  using assms(3)
  by (simp_all add: Sorting_add_def Sorting_set_def Sorting_get_def Sorting_remove_def
      Sorting_readOne[OF assms(1,2)] Sorting_partialUpdateOne[OF assms(1)])

text \<open>
  C9. For a Sort profile \<open>d\<close> stored in a collection with pairwise different
  ids, and a label \<open>l\<close>. When \<open>l\<close> is in the weights of \<open>d\<close>:
  \<^verbatim>\<open>add\<close> fails with \<^verbatim>\<open>LabelNotAllowedError\<close> and changes nothing, \<^verbatim>\<open>set\<close>
  succeeds and stores the new weight, \<^verbatim>\<open>get\<close> returns the weight, and
  \<^verbatim>\<open>remove\<close> succeeds and deletes the entry. When \<open>l\<close> is not in the
  weights: \<^verbatim>\<open>add\<close> succeeds and stores the weight (and the user),
  \<^verbatim>\<open>set\<close> and \<^verbatim>\<open>get\<close> fail with \<^verbatim>\<open>LabelNotAllowedError\<close>, and
  \<^verbatim>\<open>remove\<close> fails with \<^verbatim>\<open>LabelNotFoundError\<close>, all three changing
  nothing. The first error is a NotAllowed error, the second a NotFound error.
\<close>

theorem Sorting_label_cases:
  assumes "wf_collection (sorts s)" and "d \<in> set (docs (sorts s))"
  shows
   "(\<forall>v. weights d l = Some v \<longrightarrow>
       Sorting_add s (doc_id d) l w u = (Inl LabelNotAllowedError, s) \<and>
       Sorting_set s (doc_id d) l w u =
         (Inr (), s\<lparr>sorts := (sorts s)\<lparr>docs :=
            map (\<lambda>x. if doc_id x = doc_id d then x\<lparr>weights := (weights d)(l \<mapsto> w)\<rparr> else x)
              (docs (sorts s))\<rparr>\<rparr>) \<and>
       Sorting_get s (doc_id d) l = (Inr v, s) \<and>
       Sorting_remove s (doc_id d) l =
         (Inr (), s\<lparr>sorts := (sorts s)\<lparr>docs :=
            map (\<lambda>x. if doc_id x = doc_id d then x\<lparr>weights := (weights d)(l := None)\<rparr> else x)
              (docs (sorts s))\<rparr>\<rparr>)) \<and>
    (weights d l = None \<longrightarrow>
       Sorting_add s (doc_id d) l w u =
         (Inr (), s\<lparr>sorts := (sorts s)\<lparr>docs :=
            map (\<lambda>x. if doc_id x = doc_id d
                      then x\<lparr>SortDoc.user := u, weights := (weights d)(l \<mapsto> w)\<rparr> else x)
              (docs (sorts s))\<rparr>\<rparr>) \<and>
       Sorting_set s (doc_id d) l w u = (Inl LabelNotAllowedError, s) \<and>
       Sorting_get s (doc_id d) l = (Inl LabelNotAllowedError, s) \<and>
       Sorting_remove s (doc_id d) l = (Inl LabelNotFoundError, s)) \<and>
    instanceof_NotAllowedError LabelNotAllowedError \<and>
    instanceof_NotFoundError LabelNotFoundError"
  using Sorting_present[OF assms] Sorting_absent[OF assms] by simp

theorem Sorting_label_cases_witness:
  "wf_collection (sorts one_sort) \<and> work_sort \<in> set (docs (sorts one_sort)) \<and>
   Sorting_add one_sort 4 ''work'' 5 1 = (Inl LabelNotAllowedError, one_sort) \<and>
   Sorting_get one_sort 4 ''work'' = (Inr 3, one_sort) \<and>
   Sorting_set one_sort 4 ''play'' 5 1 = (Inl LabelNotAllowedError, one_sort) \<and>
   Sorting_get one_sort 4 ''play'' = (Inl LabelNotAllowedError, one_sort) \<and>
   Sorting_remove one_sort 4 ''play'' = (Inl LabelNotFoundError, one_sort) \<and>
   fst (Sorting_add one_sort 4 ''play'' 5 1) = Inr () \<and>
   fst (Sorting_set one_sort 4 ''work'' 5 1) = Inr () \<and>
   fst (Sorting_remove one_sort 4 ''work'') = Inr ()"
proof -
  have wf: "wf_collection (sorts one_sort)"
    by (simp add: one_sort_def wf_collection_def)
  have mem: "work_sort \<in> set (docs (sorts one_sort))"
    by (simp add: one_sort_def work_sort_def)
  have id: "doc_id work_sort = 4" and w: "weights work_sort ''work'' = Some 3"
    and p: "weights work_sort ''play'' = None"
    by (simp_all add: work_sort_def)
  from Sorting_label_cases [OF wf mem, of "''work''" 5 1]
    Sorting_label_cases [OF wf mem, of "''play''" 5 1] wf mem id w p
  show ?thesis by simp
qed

section \<open>The unimplemented algorithms\<close>

lemma Sorting_sort_fails:
  assumes "\<exists>d \<in> set (docs (sorts s)). doc_id d = sortId"
  shows "Sorting_sort s sortId feed = (Inl NotImplementedError, s)"
proof -
  from assms have "readOne SortDoc_field (sorts s) (ById sortId) \<noteq> None"
    by (simp add: readOne_None_iff SortDoc_field_def)
  then show ?thesis
    by (auto simp: Sorting_sort_def Sort_def)
qed

lemma Sourcing_update_fails:
  assumes "\<exists>d \<in> set (docs (sources s)). doc_id d = sourceID"
  shows "Sourcing_update s sourceID = (Inl NotImplementedError, s)"
proof -
  from assms have "readOne SourceDoc_field (sources s) (ById sourceID) \<noteq> None"
    by (simp add: readOne_None_iff SourceDoc_field_def)
  then show ?thesis
    by (simp add: Sourcing_update_def assertSourceExists_def Get_def)
qed

lemma render_fails:
  assumes "\<exists>d \<in> set (docs (templates s)). doc_id d = i"
  shows "render s i m = (Inl NotImplementedError, s)"
proof -
  from assms have "readOne TemplateDoc_field (templates s) (ById i) \<noteq> None"
    by (simp add: readOne_None_iff TemplateDoc_field_def)
  then show ?thesis
    by (simp add: render_def assertTemplateExists_def Render_def)
qed

text \<open>
  C8. When a Sort profile with the given id is stored, \<^verbatim>\<open>Sorting.sort\<close>
  fails with NotImplementedError; when a Source with the given id is stored,
  \<^verbatim>\<open>Sourcing.update\<close> does; when a Template with the given id is stored,
  \<^verbatim>\<open>Templating.render\<close> does. In each case the state of the concept after
  the call is the state before it: no document is created, changed or
  deleted.
\<close>

theorem unimplemented_fail_unchanged:
  "((\<exists>d \<in> set (docs (sorts s1)). doc_id d = sortId) \<longrightarrow>
      Sorting_sort s1 sortId feed = (Inl NotImplementedError, s1)) \<and>
   ((\<exists>d \<in> set (docs (sources s2)). doc_id d = sourceID) \<longrightarrow>
      Sourcing_update s2 sourceID = (Inl NotImplementedError, s2)) \<and>
   ((\<exists>d \<in> set (docs (templates s3)). doc_id d = templateId) \<longrightarrow>
      render s3 templateId slots = (Inl NotImplementedError, s3))"
  using Sorting_sort_fails Sourcing_update_fails render_fails by blast

theorem unimplemented_fail_unchanged_witness:
  "Sorting_sort one_sort 4 {10, 11} = (Inl NotImplementedError, one_sort) \<and>
   Sourcing_update one_source 2 = (Inl NotImplementedError, one_source) \<and>
   render one_template 6 [''title'' \<mapsto> 8] = (Inl NotImplementedError, one_template)"
  using unimplemented_fail_unchanged [where ?s1.0 = one_sort and sortId = 4 and feed = "{10, 11}"
      and ?s2.0 = one_source and sourceID = 2
      and ?s3.0 = one_template and templateId = 6 and slots = "[''title'' \<mapsto> 8]"]
  by (simp add: one_sort_def one_source_def one_template_def)

end
